theory Spec2Isabelle
  imports Complex_Main "HOL-Library.AList"
begin

section \<open>FlaskChat: the connection registry and message router of app.py\<close>

text \<open>
  The module keeps three global structures and reacts to seven Socket.IO events.
  Each handler is embedded as a function from the state before to an outcome: the
  state after, the events emitted (in emission order, each with its target) and the
  exception that ended the handler, if one did.

  What Python leaves implicit is an argument here: \<open>request.sid\<close>, the payload
  \<open>data\<close>, the clock readings \<open>time.time()\<close> and \<open>_now_iso()\<close>, and every draw of
  \<open>random\<close>. Clock readings are rationals (every finite float is one) and their
  difference is exact. A string is a list of characters, each one a code point below
  256. Logging is not modelled.
\<close>

subsection \<open>Python values of a payload\<close>

type_synonym sid = string

datatype pyval =
    PNone
  | PBool bool
  | PNum rat
  | PStr string
  | PList "pyval list"
  | PDict "(string \<times> pyval) list"

datatype py_error = AttributeError

text \<open>Truth value testing, as \<open>not x\<close>, \<open>x or y\<close> and \<open>bool(x)\<close> use it.\<close>

fun truthy :: "pyval \<Rightarrow> bool" where
  "truthy PNone = False"
| "truthy (PBool b) = b"
| "truthy (PNum n) = (n \<noteq> 0)"
| "truthy (PStr s) = (s \<noteq> [])"
| "truthy (PList xs) = (xs \<noteq> [])"
| "truthy (PDict kvs) = (kvs \<noteq> [])"

text \<open>\<open>data.get(key)\<close>: only a dict has \<open>get\<close>; a missing key gives \<open>None\<close>.\<close>

fun py_get :: "pyval \<Rightarrow> string \<Rightarrow> py_error + pyval" where
  "py_get (PDict kvs) k = Inr (case map_of kvs k of None \<Rightarrow> PNone | Some v \<Rightarrow> v)"
| "py_get _ k = Inl AttributeError"

text \<open>
  \<open>str.isspace\<close> on the code points below 256, and \<open>str.strip()\<close> with no argument.
\<close>

definition is_space :: "char \<Rightarrow> bool" where
  "is_space c \<longleftrightarrow> c \<in> set [CHR 0x09, CHR 0x0A, CHR 0x0B, CHR 0x0C, CHR 0x0D,
     CHR 0x1C, CHR 0x1D, CHR 0x1E, CHR 0x1F, CHR 0x20, CHR 0x85, CHR 0xA0]"

definition strip :: "string \<Rightarrow> string" where
  "strip s = rev (dropWhile is_space (rev (dropWhile is_space s)))"

text \<open>\<open>(v or "").strip()\<close>: a truthy value that is not a string has no \<open>strip\<close>.\<close>

fun or_empty_strip :: "pyval \<Rightarrow> py_error + string" where
  "or_empty_strip (PStr s) = Inr (strip s)"
| "or_empty_strip v = (if truthy v then Inl AttributeError else Inr (strip []))"

subsection \<open>Random draws and string formatting\<close>

text \<open>A draw is a natural number supplied by the caller; the helpers map it into range.\<close>

definition randint :: "int \<Rightarrow> int \<Rightarrow> nat \<Rightarrow> int" where
  "randint lo hi r = lo + int (r mod nat (hi - lo + 1))"

definition random_choice :: "'a list \<Rightarrow> nat \<Rightarrow> 'a" where
  "random_choice xs r = xs ! (r mod length xs)"

fun str_nat :: "nat \<Rightarrow> string" where
  "str_nat n =
     (if n < 10 then [''0123456789'' ! n]
      else str_nat (n div 10) @ [''0123456789'' ! (n mod 10)])"

declare str_nat.simps [simp del]

definition str_int :: "int \<Rightarrow> string" where
  "str_int i = (if i < 0 then ''-'' @ str_nat (nat (- i)) else str_nat (nat i))"

subsection \<open>State\<close>

record user =
  username :: string
  avatar :: string
  gender :: string

record message =
  msg_username :: string
  msg_avatar :: string
  msg_message :: string
  msg_timestamp :: string

record private_msg =
  pm_from :: string
  pm_to :: pyval
  pm_avatar :: string
  pm_message :: string
  pm_timestamp :: string

text \<open>
  \<open>users\<close> is a dict, iterated in insertion order by the presence payload and by
  the private-message lookup: an association list with \<open>AList.update\<close> (replace in
  place, or append) and \<open>AList.delete\<close>. \<open>last_msg_time\<close> is a
  \<open>defaultdict(lambda: 0.0)\<close>; \<open>message_history\<close> is a \<open>deque(maxlen=150)\<close>.
\<close>

record state =
  users :: "(sid \<times> user) list"
  message_history :: "message list"
  last_msg_time :: "(sid \<times> rat) list"

definition MAX_HISTORY :: nat where
  "MAX_HISTORY = 150"

definition MIN_SECONDS_BETWEEN_MSGS :: rat where
  "MIN_SECONDS_BETWEEN_MSGS = 1 / 4"

definition init_state :: state where
  "init_state = \<lparr>users = [], message_history = [], last_msg_time = []\<rparr>"

text \<open>\<open>deque.append\<close> with a bound: add on the right, then drop on the left if too long.\<close>

definition deque_append :: "nat \<Rightarrow> 'a list \<Rightarrow> 'a \<Rightarrow> 'a list" where
  "deque_append maxlen d x =
     (if maxlen = 0 then d
      else let d' = d @ [x] in if length d' > maxlen then tl d' else d')"

text \<open>
  Reading \<open>last_msg_time[sid]\<close>: a missing key is first stored with the default.
\<close>

definition defaultdict_get :: "(sid \<times> rat) list \<Rightarrow> sid \<Rightarrow> rat \<times> (sid \<times> rat) list" where
  "defaultdict_get d k =
     (case map_of d k of
        Some v \<Rightarrow> (v, d)
      | None \<Rightarrow> (0, AList.update k 0 d))"

subsection \<open>Outbound events\<close>

text \<open>
  \<open>emit\<close> inside a handler goes to the room of \<open>request.sid\<close> unless told
  otherwise; \<open>broadcast=True\<close> reaches everyone, and with \<open>include_self=False\<close>
  everyone but the sender; \<open>room=x\<close> names the room.
\<close>

datatype target = Room sid | Broadcast | BroadcastExcept sid

datatype event =
    SetUsername string
  | MessageHistory "message list"
  | UserJoined string string
  | UserLeft string
  | OnlineUsersList "(string \<times> string) list"
  | NewMessage message
  | UsernameUpdated string string string
  | AvatarUpdated string string
  | UserTyping string bool
  | PrivateMessage private_msg

type_synonym outbound = "target \<times> event"

record outcome =
  st :: state
  out :: "outbound list"
  err :: "py_error option"

definition returns :: "state \<Rightarrow> outbound list \<Rightarrow> outcome" where
  "returns s evs = \<lparr>st = s, out = evs, err = None\<rparr>"

definition raises :: "state \<Rightarrow> py_error \<Rightarrow> outcome" where
  "raises s e = \<lparr>st = s, out = [], err = Some e\<rparr>"

subsection \<open>Helpers\<close>

definition avatar_format :: "string \<Rightarrow> string \<Rightarrow> string" where
  "avatar_format g name = ''https://avatar.iran.liara.run/public/'' @ g @ ''?username='' @ name"

text \<open>\<open>_build_avatar\<close>; \<open>r\<close> is the draw used when no gender is given.\<close>

definition build_avatar :: "string \<Rightarrow> string option \<Rightarrow> nat \<Rightarrow> string" where
  "build_avatar name g r =
     (let g' = (case g of
                  None \<Rightarrow> random_choice [''boy'', ''girl''] r
                | Some x \<Rightarrow> if x = [] then random_choice [''boy'', ''girl''] r else x)
      in avatar_format g' name)"

definition get_user :: "state \<Rightarrow> sid \<Rightarrow> user option" where
  "get_user s k = map_of (users s) k"

definition online_users_payload :: "state \<Rightarrow> (string \<times> string) list" where
  "online_users_payload s = map (\<lambda>(k, u). (username u, avatar u)) (users s)"

text \<open>The lookup loop of \<open>on_private_message\<close>: the first entry whose name is equal.\<close>

fun find_target :: "(sid \<times> user) list \<Rightarrow> pyval \<Rightarrow> sid option" where
  "find_target [] t = None"
| "find_target ((k, u) # rest) t =
     (if PStr (username u) = t then Some k else find_target rest t)"

subsection \<open>Handlers\<close>

definition on_connect :: "sid \<Rightarrow> nat \<Rightarrow> nat \<Rightarrow> nat \<Rightarrow> state \<Rightarrow> outcome" where
  "on_connect k r1 r2 r3 s =
     (let name = ''User_'' @ str_int (randint 1000 9999 r1);
          g = random_choice [''boy'', ''girl''] r2;
          avatar_url = build_avatar name (Some g) r3;
          s1 = s\<lparr>users := AList.update k
                 \<lparr>username = name, avatar = avatar_url, gender = g\<rparr> (users s)\<rparr>
      in returns s1
           [(Room k, SetUsername name),
            (Room k, MessageHistory (message_history s1)),
            (Broadcast, UserJoined name avatar_url),
            (Broadcast, OnlineUsersList (online_users_payload s1))])"

definition on_disconnect :: "sid \<Rightarrow> state \<Rightarrow> outcome" where
  "on_disconnect k s =
     (case map_of (users s) k of
        None \<Rightarrow> returns s []
      | Some u \<Rightarrow>
          let s1 = s\<lparr>users := AList.delete k (users s)\<rparr>
          in returns s1
               [(Broadcast, UserLeft (username u)),
                (Broadcast, OnlineUsersList (online_users_payload s1))])"

definition on_send_message :: "sid \<Rightarrow> pyval \<Rightarrow> rat \<Rightarrow> string \<Rightarrow> state \<Rightarrow> outcome" where
  "on_send_message k data now ts s =
     (let (last, d0) = defaultdict_get (last_msg_time s) k;
          s0 = s\<lparr>last_msg_time := d0\<rparr>
      in if now - last < MIN_SECONDS_BETWEEN_MSGS then returns s0 []
         else
           let s1 = s0\<lparr>last_msg_time := AList.update k now d0\<rparr>
           in (case get_user s1 k of
                None \<Rightarrow> returns s1 []
              | Some u \<Rightarrow>
                  (case py_get data ''message'' of
                     Inl e \<Rightarrow> raises s1 e
                   | Inr v \<Rightarrow>
                       (case or_empty_strip v of
                          Inl e \<Rightarrow> raises s1 e
                        | Inr msg_text \<Rightarrow>
                            if msg_text = [] then returns s1 []
                            else
                              let message_data =
                                    \<lparr>msg_username = username u, msg_avatar = avatar u,
                                     msg_message = msg_text, msg_timestamp = ts\<rparr>;
                                  s2 = s1\<lparr>message_history :=
                                         deque_append MAX_HISTORY (message_history s1) message_data\<rparr>
                              in returns s2 [(Broadcast, NewMessage message_data)]))))"

definition on_update_username :: "sid \<Rightarrow> pyval \<Rightarrow> nat \<Rightarrow> state \<Rightarrow> outcome" where
  "on_update_username k data r s =
     (case get_user s k of
        None \<Rightarrow> returns s []
      | Some u \<Rightarrow>
          let old_username = username u
          in (case py_get data ''username'' of
                Inl e \<Rightarrow> raises s e
              | Inr v \<Rightarrow>
                  (case or_empty_strip v of
                     Inl e \<Rightarrow> raises s e
                   | Inr new_username \<Rightarrow>
                       if new_username = [] \<or> new_username = old_username then returns s []
                       else
                         let u1 = u\<lparr>username := new_username\<rparr>;
                             u2 = u1\<lparr>avatar := build_avatar new_username (Some (gender u1)) r\<rparr>;
                             s1 = s\<lparr>users := AList.update k u2 (users s)\<rparr>
                         in returns s1
                              [(Broadcast, UsernameUpdated old_username new_username (avatar u2)),
                               (Broadcast, OnlineUsersList (online_users_payload s1))])))"

definition on_update_avatar_gender :: "sid \<Rightarrow> pyval \<Rightarrow> nat \<Rightarrow> state \<Rightarrow> outcome" where
  "on_update_avatar_gender k data r s =
     (case get_user s k of
        None \<Rightarrow> returns s []
      | Some u \<Rightarrow>
          (case py_get data ''gender'' of
             Inl e \<Rightarrow> raises s e
           | Inr v \<Rightarrow>
               (case v of
                  PStr g \<Rightarrow>
                    if g \<noteq> ''boy'' \<and> g \<noteq> ''girl'' then returns s []
                    else
                      let u1 = u\<lparr>gender := g\<rparr>;
                          u2 = u1\<lparr>avatar := build_avatar (username u1) (Some g) r\<rparr>;
                          s1 = s\<lparr>users := AList.update k u2 (users s)\<rparr>
                      in returns s1
                           [(Broadcast, AvatarUpdated (username u2) (avatar u2)),
                            (Broadcast, OnlineUsersList (online_users_payload s1))]
                | _ \<Rightarrow> returns s [])))"

definition on_typing :: "sid \<Rightarrow> pyval \<Rightarrow> state \<Rightarrow> outcome" where
  "on_typing k data s =
     (case get_user s k of
        None \<Rightarrow> returns s []
      | Some u \<Rightarrow>
          (case py_get data ''isTyping'' of
             Inl e \<Rightarrow> raises s e
           | Inr v \<Rightarrow> returns s [(BroadcastExcept k, UserTyping (username u) (truthy v))]))"

definition on_private_message :: "sid \<Rightarrow> pyval \<Rightarrow> string \<Rightarrow> state \<Rightarrow> outcome" where
  "on_private_message k data ts s =
     (case map_of (users s) k of
        None \<Rightarrow> returns s []
      | Some sender \<Rightarrow>
          (case py_get data ''to'' of
             Inl e \<Rightarrow> raises s e
           | Inr target_username \<Rightarrow>
               (case py_get data ''message'' of
                  Inl e \<Rightarrow> raises s e
                | Inr v \<Rightarrow>
                    (case or_empty_strip v of
                       Inl e \<Rightarrow> raises s e
                     | Inr msg_text \<Rightarrow>
                         if \<not> truthy target_username \<or> msg_text = [] then returns s []
                         else
                           (case find_target (users s) target_username of
                              None \<Rightarrow> returns s []
                            | Some target_sid \<Rightarrow>
                                if target_sid = [] then returns s []
                                else
                                  let message_data =
                                        \<lparr>pm_from = username sender, pm_to = target_username,
                                         pm_avatar = avatar sender, pm_message = msg_text,
                                         pm_timestamp = ts\<rparr>
                                  in returns s
                                       [(Room target_sid, PrivateMessage message_data),
                                        (Room k, PrivateMessage message_data)])))))"

subsection \<open>The event loop\<close>

text \<open>
  One inbound event is one handler call, with the caller's \<open>sid\<close> and what the
  handler reads from outside. A connection's events are handled one after another;
  an exception ends the handler and leaves the state as it was at that point.
\<close>

datatype inbound =
    Connect sid nat nat nat
  | Disconnect sid
  | SendMessage sid pyval rat string
  | UpdateUsername sid pyval nat
  | UpdateAvatarGender sid pyval nat
  | Typing sid pyval
  | SendPrivateMessage sid pyval string

fun dispatch :: "state \<Rightarrow> inbound \<Rightarrow> outcome" where
  "dispatch s (Connect k r1 r2 r3) = on_connect k r1 r2 r3 s"
| "dispatch s (Disconnect k) = on_disconnect k s"
| "dispatch s (SendMessage k data now ts) = on_send_message k data now ts s"
| "dispatch s (UpdateUsername k data r) = on_update_username k data r s"
| "dispatch s (UpdateAvatarGender k data r) = on_update_avatar_gender k data r s"
| "dispatch s (Typing k data) = on_typing k data s"
| "dispatch s (SendPrivateMessage k data ts) = on_private_message k data ts s"

fun run :: "state \<Rightarrow> inbound list \<Rightarrow> state" where
  "run s [] = s"
| "run s (e # es) = run (st (dispatch s e)) es"

fun emitted :: "state \<Rightarrow> inbound list \<Rightarrow> outbound list" where
  "emitted s [] = []"
| "emitted s (e # es) = out (dispatch s e) @ emitted (st (dispatch s e)) es"

subsection \<open>Vocabulary of the properties\<close>

text \<open>The value that reading \<open>last_msg_time[sid]\<close> yields in a state.\<close>

definition last_send :: "state \<Rightarrow> sid \<Rightarrow> rat" where
  "last_send s k = (case map_of (last_msg_time s) k of None \<Rightarrow> 0 | Some t \<Rightarrow> t)"

text \<open>An inbound event that is a public send attempt of the given \<open>sid\<close>.\<close>

fun is_send_by :: "sid \<Rightarrow> inbound \<Rightarrow> bool" where
  "is_send_by k (SendMessage k' data now ts) = (k' = k)"
| "is_send_by k _ = False"

text \<open>The messages of the \<open>new_message\<close> events in a list of emitted events, in order.\<close>

fun new_messages :: "outbound list \<Rightarrow> message list" where
  "new_messages [] = []"
| "new_messages ((t, NewMessage m) # rest) = m # new_messages rest"
| "new_messages (_ # rest) = new_messages rest"

section \<open>Properties\<close>

subsection \<open>The throttle table under \<open>on_send_message\<close>\<close>

lemma defaultdict_get_fst: "fst (defaultdict_get (last_msg_time s) k) = last_send s k"
  by (simp add: defaultdict_get_def last_send_def split: option.splits)

lemma defaultdict_get_snd_map_of:
  "map_of (snd (defaultdict_get d k)) =
     (map_of d)(k \<mapsto> (case map_of d k of None \<Rightarrow> 0 | Some t \<Rightarrow> t))"
  by (auto simp: defaultdict_get_def update_conv' split: option.splits)

lemma on_send_message_throttled:
  assumes "now - last_send s k < MIN_SECONDS_BETWEEN_MSGS"
  shows "on_send_message k data now ts s =
         returns (s\<lparr>last_msg_time := snd (defaultdict_get (last_msg_time s) k)\<rparr>) []"
  using assms
  by (simp add: on_send_message_def case_prod_beta defaultdict_get_fst)

lemma on_send_message_passed_table:
  assumes "\<not> now - last_send s k < MIN_SECONDS_BETWEEN_MSGS"
  shows "last_msg_time (st (on_send_message k data now ts s)) =
         AList.update k now (snd (defaultdict_get (last_msg_time s) k))"
  using assms
  by (simp add: on_send_message_def case_prod_beta defaultdict_get_fst get_user_def
      returns_def raises_def Let_def split: option.splits sum.splits)

lemma on_send_message_users: "users (st (on_send_message k data now ts s)) = users s"
  by (simp add: on_send_message_def case_prod_beta get_user_def returns_def raises_def Let_def
      split: option.splits sum.splits)

lemma on_send_message_unknown:
  assumes "get_user s k = None"
  shows "out (on_send_message k data now ts s) = []"
    and "err (on_send_message k data now ts s) = None"
    and "message_history (st (on_send_message k data now ts s)) = message_history s"
  using assms
  by (simp_all add: on_send_message_def case_prod_beta get_user_def returns_def raises_def
      Let_def split: option.splits sum.splits)

lemma on_send_message_table_map_of:
  "map_of (last_msg_time (st (on_send_message k data now ts s))) =
     (map_of (last_msg_time s))
       (k \<mapsto> (if now - last_send s k < MIN_SECONDS_BETWEEN_MSGS then last_send s k else now))"
proof (cases "now - last_send s k < MIN_SECONDS_BETWEEN_MSGS")
  case True
  then show ?thesis
    by (simp add: on_send_message_throttled returns_def defaultdict_get_snd_map_of last_send_def)
next
  case False
  then show ?thesis
    by (simp add: on_send_message_passed_table update_conv' defaultdict_get_snd_map_of)
qed

subsection \<open>Events from a connection that is not registered\<close>

text \<open>
  Claim C2, as the code has it. When the acting \<open>sid\<close> is not in \<open>users\<close>, the
  handlers \<open>on_disconnect\<close>, \<open>on_update_username\<close>, \<open>on_update_avatar_gender\<close>,
  \<open>on_typing\<close> and \<open>on_private_message\<close> return at once: no event, no exception,
  the state as it was. \<open>on_send_message\<close> also emits nothing, raises nothing and
  leaves \<open>users\<close> and \<open>message_history\<close> alone, but it runs its throttle before it
  looks the sender up: afterwards \<open>last_msg_time\<close> holds an entry for the \<open>sid\<close>,
  equal to \<open>now\<close> when the rate check passed and to the value read otherwise; the
  other entries are as before.
\<close>

theorem unknown_sid_noop:
  assumes "get_user s k = None"
  shows "on_disconnect k s = returns s []
       \<and> on_update_username k d1 r1 s = returns s []
       \<and> on_update_avatar_gender k d2 r2 s = returns s []
       \<and> on_typing k d3 s = returns s []
       \<and> on_private_message k d4 ts4 s = returns s []
       \<and> out (on_send_message k d5 now ts5 s) = []
       \<and> err (on_send_message k d5 now ts5 s) = None
       \<and> users (st (on_send_message k d5 now ts5 s)) = users s
       \<and> message_history (st (on_send_message k d5 now ts5 s)) = message_history s
       \<and> map_of (last_msg_time (st (on_send_message k d5 now ts5 s))) =
           (map_of (last_msg_time s))
             (k \<mapsto> (if now - last_send s k < MIN_SECONDS_BETWEEN_MSGS
                     then last_send s k else now))"
proof -
  have "on_disconnect k s = returns s []"
    using assms by (simp add: on_disconnect_def get_user_def)
  moreover have "on_update_username k d1 r1 s = returns s []"
    using assms by (simp add: on_update_username_def)
  moreover have "on_update_avatar_gender k d2 r2 s = returns s []"
    using assms by (simp add: on_update_avatar_gender_def)
  moreover have "on_typing k d3 s = returns s []"
    using assms by (simp add: on_typing_def)
  moreover have "on_private_message k d4 ts4 s = returns s []"
    using assms by (simp add: on_private_message_def get_user_def)
  ultimately show ?thesis
    using on_send_message_unknown [OF assms] on_send_message_users
      on_send_message_table_map_of
    by simp
qed

theorem unknown_sid_noop_witness:
  "get_user init_state ''ghost'' = None
   \<and> on_disconnect ''ghost'' init_state = returns init_state []
   \<and> on_typing ''ghost'' (PDict [(''isTyping'', PBool True)]) init_state = returns init_state []
   \<and> users (st (on_send_message ''ghost'' (PDict [(''message'', PStr ''hi'')]) 1000 ''t''
        init_state)) = []"
proof -
  have h: "get_user init_state ''ghost'' = None"
    by (simp add: init_state_def get_user_def)
  show ?thesis
    using h unknown_sid_noop [OF h, of _ _ _ _ "PDict [(''isTyping'', PBool True)]" _ _
        "PDict [(''message'', PStr ''hi'')]" 1000 "''t''"]
    by (simp add: init_state_def)
qed

text \<open>
  The claim as the specification words it fails for \<open>on_send_message\<close>: a send from
  an unregistered \<open>sid\<close> leaves an entry in the throttle table.
\<close>

theorem unknown_sid_send_counterexample:
  "get_user init_state ''ghost'' = None
   \<and> last_msg_time init_state = []
   \<and> last_msg_time (st (on_send_message ''ghost'' (PDict [(''message'', PStr ''hi'')]) 1000
        ''t'' init_state)) = [(''ghost'', 1000)]"
  by (simp add: init_state_def get_user_def on_send_message_def defaultdict_get_def
      MIN_SECONDS_BETWEEN_MSGS_def returns_def)

subsection \<open>Avatars\<close>

lemma random_choice_gender:
  "random_choice [''boy'', ''girl''] r = ''boy'' \<or> random_choice [''boy'', ''girl''] r = ''girl''"
proof -
  have "r mod 2 = 0 \<or> r mod 2 = 1" by arith
  then have "r mod Suc (Suc 0) = 0 \<or> r mod Suc (Suc 0) = Suc 0"
    by (simp add: numeral_2_eq_2)
  then show ?thesis by (auto simp: random_choice_def)
qed

lemma build_avatar_given: "g \<noteq> [] \<Longrightarrow> build_avatar name (Some g) r = avatar_format g name"
  by (simp add: build_avatar_def)

lemma build_avatar_drawn:
  "build_avatar name (Some (random_choice [''boy'', ''girl''] r2)) r3 =
   avatar_format (random_choice [''boy'', ''girl''] r2) name"
  using random_choice_gender [of r2] by (auto simp: build_avatar_given)

subsection \<open>Connecting with a \<open>sid\<close> that is already registered\<close>

text \<open>
  Claim C1, as the code has it. \<open>on_connect\<close> has no duplicate check and never
  raises. When the \<open>sid\<close> is already a key of \<open>users\<close>, the assignment
  \<open>users[request.sid] = {...}\<close> replaces the record by the freshly drawn identity;
  the key keeps its place, the other records, the history and the throttle table
  are as before, and the same four events are emitted as for a new connection.
\<close>

theorem on_connect_existing_sid:
  assumes "map_of (users s) k = Some old"
  shows "err (on_connect k r1 r2 r3 s) = None
       \<and> map_of (users (st (on_connect k r1 r2 r3 s))) k =
           Some \<lparr>username = ''User_'' @ str_int (randint 1000 9999 r1),
                 avatar = avatar_format (random_choice [''boy'', ''girl''] r2)
                            (''User_'' @ str_int (randint 1000 9999 r1)),
                 gender = random_choice [''boy'', ''girl''] r2\<rparr>
       \<and> map fst (users (st (on_connect k r1 r2 r3 s))) = map fst (users s)
       \<and> (\<forall>k'. k' \<noteq> k \<longrightarrow>
             map_of (users (st (on_connect k r1 r2 r3 s))) k' = map_of (users s) k')
       \<and> message_history (st (on_connect k r1 r2 r3 s)) = message_history s
       \<and> last_msg_time (st (on_connect k r1 r2 r3 s)) = last_msg_time s
       \<and> out (on_connect k r1 r2 r3 s) =
           [(Room k, SetUsername (''User_'' @ str_int (randint 1000 9999 r1))),
            (Room k, MessageHistory (message_history s)),
            (Broadcast, UserJoined (''User_'' @ str_int (randint 1000 9999 r1))
               (avatar_format (random_choice [''boy'', ''girl''] r2)
                  (''User_'' @ str_int (randint 1000 9999 r1)))),
            (Broadcast, OnlineUsersList
               (online_users_payload (st (on_connect k r1 r2 r3 s))))]"
proof -
  have "k \<in> set (map fst (users s))"
    using assms by (metis map_of_eq_None_iff option.distinct(1) set_map)
  then have "map fst (AList.update k v (users s)) = map fst (users s)" for v
    by (simp add: update_keys)
  then show ?thesis
    by (simp add: on_connect_def returns_def Let_def build_avatar_drawn update_conv')
qed

theorem on_connect_existing_sid_witness:
  "map_of (users (st (on_connect ''a'' 4 1 0 init_state))) ''a'' =
     Some \<lparr>username = ''User_1004'',
           avatar = ''https://avatar.iran.liara.run/public/girl?username=User_1004'',
           gender = ''girl''\<rparr>
   \<and> err (on_connect ''a'' 5 0 0 (st (on_connect ''a'' 4 1 0 init_state))) = None
   \<and> map fst (users (st (on_connect ''a'' 5 0 0 (st (on_connect ''a'' 4 1 0 init_state)))))
      = [''a'']"
proof -
  have h: "map_of (users (st (on_connect ''a'' 4 1 0 init_state))) ''a'' =
    Some \<lparr>username = ''User_1004'',
          avatar = ''https://avatar.iran.liara.run/public/girl?username=User_1004'',
          gender = ''girl''\<rparr>"
    by (simp add: on_connect_def returns_def randint_def random_choice_def build_avatar_def
        avatar_format_def str_int_def str_nat.simps init_state_def Let_def)
  have "map fst (users (st (on_connect ''a'' 4 1 0 init_state))) = [''a'']"
    by (simp add: on_connect_def returns_def init_state_def Let_def)
  then show ?thesis
    using h on_connect_existing_sid [OF h, of 5 0 0] by simp
qed

text \<open>
  No \<open>DuplicateConnectionError\<close>: connecting again with the \<open>sid\<close> of
  \<open>User_1004\<close> returns normally and the record is now \<open>User_1005\<close>.
\<close>

theorem on_connect_existing_sid_counterexample:
  "map_of (users \<lparr>users = [(''a'', \<lparr>username = ''User_1004'',
        avatar = ''https://avatar.iran.liara.run/public/girl?username=User_1004'',
        gender = ''girl''\<rparr>)], message_history = [], last_msg_time = []\<rparr>) ''a''
     = Some \<lparr>username = ''User_1004'',
        avatar = ''https://avatar.iran.liara.run/public/girl?username=User_1004'',
        gender = ''girl''\<rparr>
   \<and> err (on_connect ''a'' 5 0 0 \<lparr>users = [(''a'', \<lparr>username = ''User_1004'',
        avatar = ''https://avatar.iran.liara.run/public/girl?username=User_1004'',
        gender = ''girl''\<rparr>)], message_history = [], last_msg_time = []\<rparr>) = None
   \<and> users (st (on_connect ''a'' 5 0 0 \<lparr>users = [(''a'', \<lparr>username = ''User_1004'',
        avatar = ''https://avatar.iran.liara.run/public/girl?username=User_1004'',
        gender = ''girl''\<rparr>)], message_history = [], last_msg_time = []\<rparr>))
     = [(''a'', \<lparr>username = ''User_1005'',
        avatar = ''https://avatar.iran.liara.run/public/boy?username=User_1005'',
        gender = ''boy''\<rparr>)]"
  by (simp add: on_connect_def returns_def randint_def random_choice_def build_avatar_def
      avatar_format_def str_int_def str_nat.simps Let_def)

subsection \<open>Evaluating the handlers on concrete inputs\<close>

lemmas eval_defs =
  init_state_def returns_def raises_def get_user_def online_users_payload_def
  on_connect_def on_disconnect_def on_send_message_def on_update_username_def
  on_update_avatar_gender_def on_typing_def on_private_message_def
  defaultdict_get_def deque_append_def MAX_HISTORY_def MIN_SECONDS_BETWEEN_MSGS_def
  randint_def random_choice_def build_avatar_def avatar_format_def str_int_def str_nat.simps
  strip_def is_space_def last_send_def Let_def

text \<open>Two connections, \<open>a\<close> and \<open>b\<close>, on an empty server.\<close>

lemma two_connected:
  "run init_state [Connect ''a'' 4 1 0, Connect ''b'' 5 0 0] =
     \<lparr>users =
        [(''a'', \<lparr>username = ''User_1004'',
            avatar = ''https://avatar.iran.liara.run/public/girl?username=User_1004'',
            gender = ''girl''\<rparr>),
         (''b'', \<lparr>username = ''User_1005'',
            avatar = ''https://avatar.iran.liara.run/public/boy?username=User_1005'',
            gender = ''boy''\<rparr>)],
      message_history = [], last_msg_time = []\<rparr>"
  by (simp add: eval_defs)

subsection \<open>Private messages\<close>

lemma find_target_Some:
  "find_target xs tv = Some t \<Longrightarrow> \<exists>u. (t, u) \<in> set xs \<and> PStr (username u) = tv"
  by (induction xs) (auto split: if_splits)

text \<open>
  Claim C6. A registered sender (record \<open>sender\<close>) sends a private message whose
  \<open>to\<close> is the non-empty name \<open>b\<close> and whose body is not empty after
  \<open>strip\<close>; the lookup loop stops at connection \<open>t\<close>, a connection whose name is
  \<open>b\<close>. Then the handler emits exactly two \<open>private_message\<close> events, the first
  to the room of \<open>t\<close> and the second to the room of the sender, both with the one
  payload \<open>{from, to, avatar, message, timestamp}\<close> built from the sender's current
  name and avatar and the stripped body; the state, and so the history, is as before.
  Connection ids are Socket.IO session ids, which are never the empty string.
\<close>

theorem private_message_delivered:
  assumes "map_of (users s) k = Some sender"
    and "py_get data ''to'' = Inr (PStr b)" and "b \<noteq> []"
    and "py_get data ''message'' = Inr (PStr body)" and "strip body \<noteq> []"
    and "find_target (users s) (PStr b) = Some t" and "t \<noteq> []"
  shows "on_private_message k data ts s =
         returns s
           [(Room t, PrivateMessage \<lparr>pm_from = username sender, pm_to = PStr b,
               pm_avatar = avatar sender, pm_message = strip body, pm_timestamp = ts\<rparr>),
            (Room k, PrivateMessage \<lparr>pm_from = username sender, pm_to = PStr b,
               pm_avatar = avatar sender, pm_message = strip body, pm_timestamp = ts\<rparr>)]
       \<and> (\<exists>u. (t, u) \<in> set (users s) \<and> username u = b)"
  using assms find_target_Some [of "users s" "PStr b" t]
  by (auto simp: on_private_message_def Let_def)

theorem private_message_delivered_witness:
  "on_private_message ''a'' (PDict [(''to'', PStr ''User_1005''), (''message'', PStr '' hi '')])
     ''2026-01-01T00:00:00+00:00'' (run init_state [Connect ''a'' 4 1 0, Connect ''b'' 5 0 0])
   = returns (run init_state [Connect ''a'' 4 1 0, Connect ''b'' 5 0 0])
      [(Room ''b'', PrivateMessage \<lparr>pm_from = ''User_1004'', pm_to = PStr ''User_1005'',
          pm_avatar = ''https://avatar.iran.liara.run/public/girl?username=User_1004'',
          pm_message = ''hi'', pm_timestamp = ''2026-01-01T00:00:00+00:00''\<rparr>),
       (Room ''a'', PrivateMessage \<lparr>pm_from = ''User_1004'', pm_to = PStr ''User_1005'',
          pm_avatar = ''https://avatar.iran.liara.run/public/girl?username=User_1004'',
          pm_message = ''hi'', pm_timestamp = ''2026-01-01T00:00:00+00:00''\<rparr>)]"
  using private_message_delivered [of "run init_state [Connect ''a'' 4 1 0, Connect ''b'' 5 0 0]"
      "''a''" "\<lparr>username = ''User_1004'',
            avatar = ''https://avatar.iran.liara.run/public/girl?username=User_1004'',
            gender = ''girl''\<rparr>"
      "PDict [(''to'', PStr ''User_1005''), (''message'', PStr '' hi '')]" "''User_1005''"
      "'' hi ''" "''b''" "''2026-01-01T00:00:00+00:00''"]
  unfolding two_connected by (simp add: strip_def is_space_def)

text \<open>
  Claim C7. The payload is a dict whose \<open>message\<close> is a string or is missing.
  If the \<open>to\<close> value is falsy (missing, or the empty string), or the body is empty
  after \<open>strip\<close>, or no record of \<open>users\<close> has a name equal to the \<open>to\<close> value,
  then \<open>on_private_message\<close> returns with no event, no exception and the state
  as it was, whoever the sender is.
\<close>

theorem private_message_dropped:
  assumes "py_get data ''to'' = Inr tv" and "py_get data ''message'' = Inr mv"
    and "or_empty_strip mv = Inr body"
    and "\<not> truthy tv \<or> body = [] \<or> (\<forall>(k', u) \<in> set (users s). PStr (username u) \<noteq> tv)"
  shows "on_private_message k data ts s = returns s []"
proof -
  have "find_target xs tv = None" if "\<forall>(k', u) \<in> set xs. PStr (username u) \<noteq> tv" for xs
    using that by (induction xs) auto
  then show ?thesis
    using assms
    by (auto simp: on_private_message_def split: option.splits)
qed

theorem private_message_dropped_witness:
  "on_private_message ''a'' (PDict [(''to'', PStr ''Nobody''), (''message'', PStr ''hi'')])
     ''2026-01-01T00:00:00+00:00'' (run init_state [Connect ''a'' 4 1 0, Connect ''b'' 5 0 0])
   = returns (run init_state [Connect ''a'' 4 1 0, Connect ''b'' 5 0 0]) []"
  using private_message_dropped [of "PDict [(''to'', PStr ''Nobody''), (''message'', PStr ''hi'')]"
      "PStr ''Nobody''" "PStr ''hi''" "''hi''"
      "run init_state [Connect ''a'' 4 1 0, Connect ''b'' 5 0 0]" "''a''"
      "''2026-01-01T00:00:00+00:00''"]
  unfolding two_connected by (simp add: strip_def is_space_def)

subsection \<open>Changing the avatar gender\<close>



subsection \<open>States reached from the empty server\<close>

lemma run_snoc: "run s (es @ [e]) = st (dispatch (run s es) e)"
  by (induction es arbitrary: s) simp_all

lemma set_update_cases:
  "(k', v') \<in> set (AList.update k v xs) \<Longrightarrow> (k', v') = (k, v) \<or> (k', v') \<in> set xs"
  by (induction xs) (auto split: if_splits)

lemma set_delete_subset: "set (AList.delete k xs) \<subseteq> set xs"
  by (auto simp: AList.delete_eq)

lemma dispatch_gender:
  assumes inv: "\<And>k u. (k, u) \<in> set (users s) \<Longrightarrow> gender u = ''boy'' \<or> gender u = ''girl''"
    and mem: "(k', u') \<in> set (users (st (dispatch s e)))"
  shows "gender u' = ''boy'' \<or> gender u' = ''girl''"
proof (cases e)
  case (Connect k r1 r2 r3)
  with mem have "(k', u') \<in> set (AList.update k
      \<lparr>username = ''User_'' @ str_int (randint 1000 9999 r1),
       avatar = build_avatar (''User_'' @ str_int (randint 1000 9999 r1))
                  (Some (random_choice [''boy'', ''girl''] r2)) r3,
       gender = random_choice [''boy'', ''girl''] r2\<rparr> (users s))"
    by (simp add: on_connect_def returns_def Let_def)
  from set_update_cases [OF this] show ?thesis
    using inv random_choice_gender [of r2] by auto
next
  case (Disconnect k)
  with mem have "(k', u') \<in> set (users s)"
    using set_delete_subset [of k "users s"]
    by (auto simp: on_disconnect_def returns_def Let_def split: option.splits)
  then show ?thesis by (rule inv)
next
  case (SendMessage k data now ts)
  with mem have "(k', u') \<in> set (users s)"
    by (simp add: on_send_message_users)
  then show ?thesis by (rule inv)
next
  case (UpdateUsername k data r)
  show ?thesis
  proof (cases "users (st (dispatch s e)) = users s")
    case True
    with mem show ?thesis by (simp add: inv)
  next
    case False
    then obtain u nm where u: "map_of (users s) k = Some u"
      and upd: "users (st (dispatch s e)) =
                AList.update k (u\<lparr>username := nm, avatar := build_avatar nm (Some (gender u)) r\<rparr>)
                  (users s)"
      using UpdateUsername
      by (auto simp: on_update_username_def get_user_def returns_def raises_def Let_def
          split: option.splits sum.splits if_splits)
    from mem upd set_update_cases
    have "(k', u') = (k, u\<lparr>username := nm, avatar := build_avatar nm (Some (gender u)) r\<rparr>)
          \<or> (k', u') \<in> set (users s)"
      by metis
    moreover have "(k, u) \<in> set (users s)"
      using u by (rule map_of_SomeD)
    ultimately show ?thesis
      using inv [of k u] inv [of k' u'] by auto
  qed
next
  case (UpdateAvatarGender k data r)
  show ?thesis
  proof (cases "users (st (dispatch s e)) = users s")
    case True
    with mem show ?thesis by (simp add: inv)
  next
    case False
    then obtain u g where g: "g = ''boy'' \<or> g = ''girl''"
      and upd: "users (st (dispatch s e)) =
                AList.update k (u\<lparr>gender := g, avatar := build_avatar (username u) (Some g) r\<rparr>)
                  (users s)"
      using UpdateAvatarGender
      by (auto simp: on_update_avatar_gender_def get_user_def returns_def raises_def Let_def
          split: option.splits sum.splits if_splits pyval.splits)
    from mem upd set_update_cases
    have "(k', u') = (k, u\<lparr>gender := g, avatar := build_avatar (username u) (Some g) r\<rparr>)
          \<or> (k', u') \<in> set (users s)"
      by metis
    then show ?thesis
      using inv [of k' u'] g by auto
  qed
next
  case (Typing k data)
  with mem have "(k', u') \<in> set (users s)"
    by (auto simp: on_typing_def returns_def raises_def split: option.splits sum.splits)
  then show ?thesis by (rule inv)
next
  case (SendPrivateMessage k data ts)
  with mem have "(k', u') \<in> set (users s)"
    by (auto simp: on_private_message_def returns_def raises_def Let_def
        split: option.splits sum.splits if_splits)
  then show ?thesis by (rule inv)
qed

lemma reachable_gender:
  "(k, u) \<in> set (users (run init_state evs)) \<Longrightarrow> gender u = ''boy'' \<or> gender u = ''girl''"
proof (induction evs arbitrary: k u rule: rev_induct)
  case Nil
  then show ?case by (simp add: init_state_def)
next
  case (snoc e evs)
  show ?case
  proof (rule dispatch_gender)
    show "(k, u) \<in> set (users (st (dispatch (run init_state evs) e)))"
      using snoc.prems by (simp add: run_snoc)
  qed (rule snoc.IH)
qed

subsection \<open>Changing the name\<close>

text \<open>
  Claim C8. In a state reached from the empty server, for a registered \<open>sid\<close> with
  record \<open>u\<close> and a dict payload whose \<open>username\<close> is the string \<open>new\<close>: if
  \<open>new\<close> is empty after \<open>strip\<close> or equals the current name, \<open>on_update_username\<close>
  returns with no event and the state as it was. Otherwise the record gets the
  stripped name and the avatar built from it and the unchanged gender, and the
  handler broadcasts \<open>username_updated\<close> with the old name, the new name and the new
  avatar, then \<open>online_users_list\<close> computed from the new state.
\<close>

theorem update_username_spec:
  assumes "s = run init_state evs"
    and "get_user s k = Some u"
    and "py_get data ''username'' = Inr (PStr new)"
  shows "(strip new = [] \<or> strip new = username u \<longrightarrow>
            on_update_username k data r s = returns s [])
       \<and> (strip new \<noteq> [] \<and> strip new \<noteq> username u \<longrightarrow>
            on_update_username k data r s =
              returns
                (s\<lparr>users := AList.update k
                     (u\<lparr>username := strip new,
                        avatar := avatar_format (gender u) (strip new)\<rparr>) (users s)\<rparr>)
                [(Broadcast, UsernameUpdated (username u) (strip new)
                    (avatar_format (gender u) (strip new))),
                 (Broadcast, OnlineUsersList
                    (online_users_payload
                       (s\<lparr>users := AList.update k
                          (u\<lparr>username := strip new,
                             avatar := avatar_format (gender u) (strip new)\<rparr>) (users s)\<rparr>)))])"
proof -
  have "(k, u) \<in> set (users (run init_state evs))"
    using assms(1,2) by (auto simp: get_user_def dest: map_of_SomeD)
  then have "gender u \<noteq> []"
    using reachable_gender by fastforce
  then have "build_avatar nm (Some (gender u)) r = avatar_format (gender u) nm" for nm
    by (rule build_avatar_given)
  then show ?thesis
    using assms(2,3) by (simp add: on_update_username_def Let_def)
qed

theorem update_username_spec_witness:
  "on_update_username ''a'' (PDict [(''username'', PStr ''  '')]) 0
     (run init_state [Connect ''a'' 4 1 0, Connect ''b'' 5 0 0])
   = returns (run init_state [Connect ''a'' 4 1 0, Connect ''b'' 5 0 0]) []
   \<and> on_update_username ''a'' (PDict [(''username'', PStr '' Ann '')]) 0
     (run init_state [Connect ''a'' 4 1 0, Connect ''b'' 5 0 0])
   = returns
      \<lparr>users =
        [(''a'', \<lparr>username = ''Ann'',
            avatar = ''https://avatar.iran.liara.run/public/girl?username=Ann'',
            gender = ''girl''\<rparr>),
         (''b'', \<lparr>username = ''User_1005'',
            avatar = ''https://avatar.iran.liara.run/public/boy?username=User_1005'',
            gender = ''boy''\<rparr>)],
      message_history = [], last_msg_time = []\<rparr>
      [(Broadcast, UsernameUpdated ''User_1004'' ''Ann''
          ''https://avatar.iran.liara.run/public/girl?username=Ann''),
       (Broadcast, OnlineUsersList
          [(''Ann'', ''https://avatar.iran.liara.run/public/girl?username=Ann''),
           (''User_1005'', ''https://avatar.iran.liara.run/public/boy?username=User_1005'')])]"
  using update_username_spec [OF refl, of "[Connect ''a'' 4 1 0, Connect ''b'' 5 0 0]"
      "''a''" "\<lparr>username = ''User_1004'',
            avatar = ''https://avatar.iran.liara.run/public/girl?username=User_1004'',
            gender = ''girl''\<rparr>" "PDict [(''username'', PStr ''  '')]" "''  ''" 0]
    update_username_spec [OF refl, of "[Connect ''a'' 4 1 0, Connect ''b'' 5 0 0]"
      "''a''" "\<lparr>username = ''User_1004'',
            avatar = ''https://avatar.iran.liara.run/public/girl?username=User_1004'',
            gender = ''girl''\<rparr>" "PDict [(''username'', PStr '' Ann '')]" "'' Ann ''" 0]
  unfolding two_connected
  by (simp add: get_user_def returns_def avatar_format_def strip_def is_space_def
      online_users_payload_def)

subsection \<open>The bounded history\<close>

lemma deque_append_cases:
  "deque_append MAX_HISTORY h m = (if length h < 150 then h @ [m] else tl h @ [m])"
  by (cases h) (auto simp: deque_append_def MAX_HISTORY_def Let_def)

lemma deque_append_length:
  "length h \<le> MAX_HISTORY \<Longrightarrow> length (deque_append MAX_HISTORY h m) \<le> MAX_HISTORY"
  by (auto simp: deque_append_def MAX_HISTORY_def Let_def)

lemma on_send_message_stores:
  assumes "get_user s k = Some u"
    and "py_get data ''message'' = Inr (PStr b)" and "strip b \<noteq> []"
    and "\<not> now - last_send s k < MIN_SECONDS_BETWEEN_MSGS"
  shows "message_history (st (on_send_message k data now ts s)) =
           deque_append MAX_HISTORY (message_history s)
             \<lparr>msg_username = username u, msg_avatar = avatar u,
              msg_message = strip b, msg_timestamp = ts\<rparr>"
  using assms
  by (simp add: on_send_message_def case_prod_beta defaultdict_get_fst get_user_def
      returns_def Let_def)

lemma on_send_message_history:
  "new_messages (out (on_send_message k data now ts s)) = []
     \<and> message_history (st (on_send_message k data now ts s)) = message_history s
   \<or> (\<exists>m. out (on_send_message k data now ts s) = [(Broadcast, NewMessage m)]
        \<and> message_history (st (on_send_message k data now ts s)) =
            deque_append MAX_HISTORY (message_history s) m)"
  by (simp add: on_send_message_def case_prod_beta get_user_def returns_def raises_def Let_def
      split: option.splits sum.splits)

lemma dispatch_history:
  "new_messages (out (dispatch s e)) = []
     \<and> message_history (st (dispatch s e)) = message_history s
   \<or> (\<exists>m. out (dispatch s e) = [(Broadcast, NewMessage m)]
        \<and> message_history (st (dispatch s e)) =
            deque_append MAX_HISTORY (message_history s) m)"
proof (cases e)
  case (SendMessage k data now ts)
  then show ?thesis using on_send_message_history [of k data now ts s] by simp
next
  case (Connect k r1 r2 r3)
  then show ?thesis by (simp add: on_connect_def returns_def Let_def)
next
  case (Disconnect k)
  then show ?thesis by (simp add: on_disconnect_def returns_def Let_def split: option.splits)
next
  case (UpdateUsername k data r)
  then show ?thesis
    by (simp add: on_update_username_def returns_def raises_def Let_def
        split: option.splits sum.splits)
next
  case (UpdateAvatarGender k data r)
  then show ?thesis
    by (simp add: on_update_avatar_gender_def returns_def raises_def Let_def
        split: option.splits sum.splits pyval.splits)
next
  case (Typing k data)
  then show ?thesis
    by (simp add: on_typing_def returns_def raises_def split: option.splits sum.splits)
next
  case (SendPrivateMessage k data ts)
  then show ?thesis
    by (simp add: on_private_message_def returns_def raises_def Let_def
        split: option.splits sum.splits)
qed

lemma dispatch_stores_broadcast:
  assumes "out (dispatch s e) = [(Broadcast, NewMessage m)]"
  shows "message_history (st (dispatch s e)) = deque_append MAX_HISTORY (message_history s) m"
  using dispatch_history [of s e] assms by auto

lemma dispatch_keeps_history:
  assumes "new_messages (out (dispatch s e)) = []"
  shows "message_history (st (dispatch s e)) = message_history s"
  using dispatch_history [of s e] assms by auto

lemma reachable_history_length: "length (message_history (run init_state evs)) \<le> MAX_HISTORY"
proof (induction evs rule: rev_induct)
  case Nil
  then show ?case by (simp add: init_state_def)
next
  case (snoc e evs)
  from dispatch_history [of "run init_state evs" e] snoc.IH
  show ?case
    by (auto simp: run_snoc deque_append_length)
qed

lemma new_messages_append: "new_messages (xs @ ys) = new_messages xs @ new_messages ys"
  by (induction xs rule: new_messages.induct) simp_all

lemma emitted_snoc: "emitted s (es @ [e]) = emitted s es @ out (dispatch (run s es) e)"
  by (induction es arbitrary: s) simp_all

lemma deque_append_drop:
  "deque_append MAX_HISTORY (drop (length xs - 150) xs) m =
   drop (length (xs @ [m]) - 150) (xs @ [m])"
proof (cases "length xs < 150")
  case True
  then show ?thesis by (simp add: deque_append_cases)
next
  case False
  then have "Suc (length xs) - 150 = Suc (length xs - 150)" by simp
  then show ?thesis
    using False by (simp add: deque_append_cases drop_Suc tl_drop)
qed

lemma reachable_history_is_tail:
  "message_history (run init_state evs) =
   drop (length (new_messages (emitted init_state evs)) - 150)
     (new_messages (emitted init_state evs))"
proof (induction evs rule: rev_induct)
  case Nil
  then show ?case by (simp add: init_state_def)
next
  case (snoc e evs)
  let ?s = "run init_state evs"
  let ?all = "new_messages (emitted init_state evs)"
  from dispatch_history [of ?s e] show ?case
  proof
    assume "new_messages (out (dispatch ?s e)) = []
      \<and> message_history (st (dispatch ?s e)) = message_history ?s"
    then show ?thesis
      using snoc.IH by (simp add: run_snoc emitted_snoc new_messages_append)
  next
    assume "\<exists>m. out (dispatch ?s e) = [(Broadcast, NewMessage m)]
      \<and> message_history (st (dispatch ?s e)) = deque_append MAX_HISTORY (message_history ?s) m"
    then obtain m where o: "out (dispatch ?s e) = [(Broadcast, NewMessage m)]"
      and h: "message_history (st (dispatch ?s e)) =
              deque_append MAX_HISTORY (message_history ?s) m"
      by blast
    have "message_history (st (dispatch ?s e)) = drop (length (?all @ [m]) - 150) (?all @ [m])"
      using h snoc.IH deque_append_drop [of ?all m] by simp
    then show ?thesis
      using o by (simp add: run_snoc emitted_snoc new_messages_append)
  qed
qed

text \<open>
  Claim C4. After any sequence of events from the empty server the history holds at
  most 150 messages, and it is exactly the last 150 (all, while there are fewer) of
  the messages broadcast as \<open>new_message\<close> so far, in the order of their broadcast,
  oldest first. One step: a public send that is accepted (registered sender, rate
  check passed, body not empty after \<open>strip\<close>) stores its message at the end of the
  list while fewer than 150 are held, and otherwise at the end of the list without
  its first (oldest) element, the others keeping their order; whenever an event
  broadcasts a \<open>new_message\<close> that message is stored in this way; an event that
  broadcasts no \<open>new_message\<close> leaves the history as it was.
\<close>

theorem history_bounded_fifo:
  "length (message_history (run init_state evs)) \<le> 150
   \<and> message_history (run init_state evs) =
       drop (length (new_messages (emitted init_state evs)) - 150)
         (new_messages (emitted init_state evs))
   \<and> (get_user s k = Some u \<and> py_get data ''message'' = Inr (PStr b) \<and> strip b \<noteq> []
        \<and> 1 / 4 \<le> now - last_send s k \<longrightarrow>
        message_history (st (on_send_message k data now ts s)) =
          (if length (message_history s) < 150
           then message_history s @
                  [\<lparr>msg_username = username u, msg_avatar = avatar u,
                    msg_message = strip b, msg_timestamp = ts\<rparr>]
           else tl (message_history s) @
                  [\<lparr>msg_username = username u, msg_avatar = avatar u,
                    msg_message = strip b, msg_timestamp = ts\<rparr>]))
   \<and> (out (dispatch s e) = [(Broadcast, NewMessage m)] \<longrightarrow>
        message_history (st (dispatch s e)) =
          (if length (message_history s) < 150 then message_history s @ [m]
           else tl (message_history s) @ [m]))
   \<and> (new_messages (out (dispatch s e)) = [] \<longrightarrow>
        message_history (st (dispatch s e)) = message_history s)"
proof -
  have bound: "length (message_history (run init_state evs)) \<le> 150"
    using reachable_history_length [of evs] by (simp add: MAX_HISTORY_def)
  have accepted: "message_history (st (on_send_message k data now ts s)) =
          (if length (message_history s) < 150
           then message_history s @
                  [\<lparr>msg_username = username u, msg_avatar = avatar u,
                    msg_message = strip b, msg_timestamp = ts\<rparr>]
           else tl (message_history s) @
                  [\<lparr>msg_username = username u, msg_avatar = avatar u,
                    msg_message = strip b, msg_timestamp = ts\<rparr>])"
    if "get_user s k = Some u" and "py_get data ''message'' = Inr (PStr b)"
      and "strip b \<noteq> []" and "1 / 4 \<le> now - last_send s k"
  proof -
    have "\<not> now - last_send s k < MIN_SECONDS_BETWEEN_MSGS"
      using that(4) by (simp add: MIN_SECONDS_BETWEEN_MSGS_def)
    from on_send_message_stores [OF that(1,2,3) this]
    show ?thesis unfolding deque_append_cases .
  qed
  have stored: "message_history (st (dispatch s e)) =
          (if length (message_history s) < 150 then message_history s @ [m]
           else tl (message_history s) @ [m])"
    if "out (dispatch s e) = [(Broadcast, NewMessage m)]"
    using dispatch_stores_broadcast [OF that] unfolding deque_append_cases .
  have kept: "message_history (st (dispatch s e)) = message_history s"
    if "new_messages (out (dispatch s e)) = []"
    using that by (rule dispatch_keeps_history)
  from bound reachable_history_is_tail [of evs] accepted stored kept
  show ?thesis by blast
qed

theorem history_bounded_fifo_witness:
  "get_user
     \<lparr>users = [(''a'', \<lparr>username = ''Ann'', avatar = ''pic'', gender = ''girl''\<rparr>)],
      message_history = replicate 150
        \<lparr>msg_username = ''Ann'', msg_avatar = ''pic'', msg_message = ''old'',
         msg_timestamp = ''t0''\<rparr>,
      last_msg_time = []\<rparr> ''a''
     = Some \<lparr>username = ''Ann'', avatar = ''pic'', gender = ''girl''\<rparr>
   \<and> message_history (st (on_send_message ''a'' (PDict [(''message'', PStr ''new'')]) 1000 ''t1''
        \<lparr>users = [(''a'', \<lparr>username = ''Ann'', avatar = ''pic'', gender = ''girl''\<rparr>)],
         message_history = replicate 150
           \<lparr>msg_username = ''Ann'', msg_avatar = ''pic'', msg_message = ''old'',
            msg_timestamp = ''t0''\<rparr>,
         last_msg_time = []\<rparr>))
     = replicate 149
           \<lparr>msg_username = ''Ann'', msg_avatar = ''pic'', msg_message = ''old'',
            msg_timestamp = ''t0''\<rparr>
       @ [\<lparr>msg_username = ''Ann'', msg_avatar = ''pic'', msg_message = ''new'',
            msg_timestamp = ''t1''\<rparr>]
   \<and> message_history (run init_state
        [Connect ''a'' 4 1 0,
         SendMessage ''a'' (PDict [(''message'', PStr ''one'')]) 1000 ''t1'',
         SendMessage ''a'' (PDict [(''message'', PStr ''two'')]) 1001 ''t2''])
     = [\<lparr>msg_username = ''User_1004'',
          msg_avatar = ''https://avatar.iran.liara.run/public/girl?username=User_1004'',
          msg_message = ''one'', msg_timestamp = ''t1''\<rparr>,
        \<lparr>msg_username = ''User_1004'',
          msg_avatar = ''https://avatar.iran.liara.run/public/girl?username=User_1004'',
          msg_message = ''two'', msg_timestamp = ''t2''\<rparr>]"
proof -
  have e: "new_messages (emitted init_state
        [Connect ''a'' 4 1 0,
         SendMessage ''a'' (PDict [(''message'', PStr ''one'')]) 1000 ''t1'',
         SendMessage ''a'' (PDict [(''message'', PStr ''two'')]) 1001 ''t2''])
     = [\<lparr>msg_username = ''User_1004'',
          msg_avatar = ''https://avatar.iran.liara.run/public/girl?username=User_1004'',
          msg_message = ''one'', msg_timestamp = ''t1''\<rparr>,
        \<lparr>msg_username = ''User_1004'',
          msg_avatar = ''https://avatar.iran.liara.run/public/girl?username=User_1004'',
          msg_message = ''two'', msg_timestamp = ''t2''\<rparr>]"
    by (simp add: eval_defs)
  show ?thesis
    using history_bounded_fifo [of
        "[Connect ''a'' 4 1 0,
          SendMessage ''a'' (PDict [(''message'', PStr ''one'')]) 1000 ''t1'',
          SendMessage ''a'' (PDict [(''message'', PStr ''two'')]) 1001 ''t2'']"
        "\<lparr>users = [(''a'', \<lparr>username = ''Ann'', avatar = ''pic'', gender = ''girl''\<rparr>)],
          message_history = replicate 150
            \<lparr>msg_username = ''Ann'', msg_avatar = ''pic'', msg_message = ''old'',
             msg_timestamp = ''t0''\<rparr>,
          last_msg_time = []\<rparr>"
        "''a''" "\<lparr>username = ''Ann'', avatar = ''pic'', gender = ''girl''\<rparr>"
        "PDict [(''message'', PStr ''new'')]" "''new''" 1000 "''t1''"]
    unfolding e
    by (simp add: get_user_def last_send_def strip_def is_space_def)
qed

subsection \<open>Which connections have a throttle entry\<close>

lemma dispatch_table_keys:
  assumes "k \<in> fst ` set (last_msg_time (st (dispatch s e)))"
  shows "k \<in> fst ` set (last_msg_time s) \<or> is_send_by k e"
proof (cases e)
  case (SendMessage k0 data now ts)
  have "dom (map_of (last_msg_time (st (on_send_message k0 data now ts s)))) =
        insert k0 (dom (map_of (last_msg_time s)))"
    by (simp add: on_send_message_table_map_of)
  then have "fst ` set (last_msg_time (st (on_send_message k0 data now ts s))) =
        insert k0 (fst ` set (last_msg_time s))"
    by (simp add: dom_map_of_conv_image_fst)
  with assms SendMessage show ?thesis by auto
next
  case (Connect k r1 r2 r3)
  with assms show ?thesis by (simp add: on_connect_def returns_def Let_def)
next
  case (Disconnect k)
  with assms show ?thesis
    by (simp add: on_disconnect_def returns_def Let_def split: option.splits)
next
  case (UpdateUsername k data r)
  with assms show ?thesis
    by (simp add: on_update_username_def returns_def raises_def Let_def
        split: option.splits sum.splits if_splits)
next
  case (UpdateAvatarGender k data r)
  with assms show ?thesis
    by (simp add: on_update_avatar_gender_def returns_def raises_def Let_def
        split: option.splits sum.splits pyval.splits if_splits)
next
  case (Typing k data)
  with assms show ?thesis
    by (simp add: on_typing_def returns_def raises_def split: option.splits sum.splits)
next
  case (SendPrivateMessage k data ts)
  with assms show ?thesis
    by (simp add: on_private_message_def returns_def raises_def Let_def
        split: option.splits sum.splits if_splits)
qed

text \<open>
  Claim C3, as the code has it. After any sequence of events from the empty server,
  \<open>last_msg_time\<close> has an entry for a \<open>sid\<close> only if \<open>on_send_message\<close> was
  called for that \<open>sid\<close>: a \<open>sid\<close> that never attempted a public send has none.
\<close>

theorem limiter_entries_only_for_senders:
  "k \<in> fst ` set (last_msg_time (run init_state evs)) \<Longrightarrow> \<exists>e \<in> set evs. is_send_by k e"
proof (induction evs rule: rev_induct)
  case Nil
  then show ?case by (simp add: init_state_def)
next
  case (snoc e evs)
  then have "k \<in> fst ` set (last_msg_time (st (dispatch (run init_state evs) e)))"
    by (simp add: run_snoc)
  from dispatch_table_keys [OF this] snoc.IH show ?case by auto
qed

text \<open>
  An attempt is enough, the message need not be accepted. A connected user whose
  only send is whitespace gets an entry although nothing was broadcast (the four
  events are those of the connect) and nothing was stored.
\<close>

theorem limiter_entry_without_accepted_message_counterexample:
  "map_of (last_msg_time (run init_state
      [Connect ''a'' 4 1 0, SendMessage ''a'' (PDict [(''message'', PStr ''   '')]) 1000 ''t1'']))
      ''a'' = Some 1000
   \<and> emitted init_state
      [Connect ''a'' 4 1 0, SendMessage ''a'' (PDict [(''message'', PStr ''   '')]) 1000 ''t1'']
     = [(Room ''a'', SetUsername ''User_1004''),
        (Room ''a'', MessageHistory []),
        (Broadcast, UserJoined ''User_1004''
           ''https://avatar.iran.liara.run/public/girl?username=User_1004''),
        (Broadcast, OnlineUsersList
           [(''User_1004'', ''https://avatar.iran.liara.run/public/girl?username=User_1004'')])]
   \<and> message_history (run init_state
      [Connect ''a'' 4 1 0, SendMessage ''a'' (PDict [(''message'', PStr ''   '')]) 1000 ''t1''])
     = []"
  by (simp add: eval_defs)

theorem limiter_entries_only_for_senders_witness:
  "''a'' \<in> fst ` set (last_msg_time (run init_state
      [Connect ''a'' 4 1 0, SendMessage ''a'' (PDict [(''message'', PStr ''   '')]) 1000 ''t1'']))
   \<and> is_send_by ''a'' (SendMessage ''a'' (PDict [(''message'', PStr ''   '')]) 1000 ''t1'')
   \<and> (\<exists>e \<in> set [Connect ''a'' 4 1 0,
                  SendMessage ''a'' (PDict [(''message'', PStr ''   '')]) 1000 ''t1''].
         is_send_by ''a'' e)"
proof -
  have h: "''a'' \<in> fst ` set (last_msg_time (run init_state
      [Connect ''a'' 4 1 0, SendMessage ''a'' (PDict [(''message'', PStr ''   '')]) 1000 ''t1'']))"
    by (simp add: eval_defs)
  show ?thesis
    using h limiter_entries_only_for_senders [OF h] by simp
qed

subsection \<open>The throttle on public sends\<close>












end
